theory Spec2Isabelle
  imports Complex_Main
begin

section \<open>Tier classification (refined-hitl-interaction-architecture.md)\<close>

text \<open>
  \<open>TierClassificationEngine.classify_action\<close> compares three assessed attributes of the
  action with string literals. The attributes are modelled as enumerations. The
  sensitivity levels are the four of the tool specification template (PUBLIC, INTERNAL,
  CONFIDENTIAL, RESTRICTED) and the literal \<open>"PHI"\<close> the classifier itself tests for.
\<close>

datatype impact = LOW | MEDIUM | HIGH

datatype reversibility = FULL | PARTIAL | NONE

datatype sensitivity = PUBLIC | INTERNAL | CONFIDENTIAL | RESTRICTED | PHI

datatype hitl_tier = TIER_1 | TIER_2 | TIER_3 | TIER_4

text \<open>
  The helpers \<open>assess_impact\<close>, \<open>assess_reversibility\<close> and \<open>assess_data_sensitivity\<close> are
  not among the sources; an action is the triple of what they return.
\<close>

record action =
  assess_impact :: impact
  assess_reversibility :: reversibility
  assess_data_sensitivity :: sensitivity

text \<open>The number of a tier, for comparing tiers.\<close>

fun tier_number :: "hitl_tier \<Rightarrow> nat" where
  "tier_number TIER_1 = 1"
| "tier_number TIER_2 = 2"
| "tier_number TIER_3 = 3"
| "tier_number TIER_4 = 4"

text \<open>
  The \<open>if\<close>/\<open>elif\<close> chain of \<open>classify_action\<close>, in the source's order. The second
  parameter of the source (the verification result) is not read by the body and is
  left out.
\<close>

definition classify_action :: "action \<Rightarrow> hitl_tier" where
  "classify_action a =
     (let impact = assess_impact a;
          reversibility = assess_reversibility a;
          data_sensitivity = assess_data_sensitivity a
      in if impact = LOW \<and> reversibility = FULL then TIER_1
         else if impact = MEDIUM \<and> reversibility \<in> set [FULL, PARTIAL] then TIER_2
         else if impact = HIGH \<or> data_sensitivity = PHI then TIER_3
         else TIER_4)"

text \<open>
  The decision table of section 4.5 of the specification, following its words: four
  rows, evaluated top-down, first match wins; an action no row matches has no tier.
\<close>

definition spec_decision_table :: "impact \<Rightarrow> reversibility \<Rightarrow> sensitivity \<Rightarrow> hitl_tier option" where
  "spec_decision_table i r s =
     (if i = LOW \<and> r = FULL then Some TIER_1
      else if i = MEDIUM \<and> (r = FULL \<or> r = PARTIAL) \<and> s \<noteq> RESTRICTED then Some TIER_2
      else if i = HIGH then Some TIER_3
      else if r = NONE \<and> s = RESTRICTED then Some TIER_4
      else None)"

section \<open>Core agent runtime: data (geisinger-module-design.md, M1)\<close>

text \<open>
  The classes \<open>PlanStep\<close>, \<open>Plan\<close>, \<open>StepResult\<close>, \<open>ExecutionResult\<close>, \<open>Check\<close>,
  \<open>VerificationResult\<close> and \<open>ToolResult\<close> are used by the source and not declared in it;
  each record has the fields the source reads or passes to the constructor. Field
  names carry a prefix where two classes use the same attribute name. A field that a
  constructor call does not pass is \<open>None\<close>; the flag \<open>failure\<close>, which the executor
  reads as a truth value, is \<open>False\<close> when it is not passed.
\<close>

record plan_step =
  tool_id :: string
  parameters :: string
  step_critical :: bool
  parallel_safe :: bool

record plan =
  steps :: "plan_step list"
  rationale :: string
  requirements :: "string list"
  has_more_steps :: bool
  plan_iteration :: nat

record tool_result =
  tr_status :: string
  tr_data :: string
  tr_error :: "string option"
  tr_tool_id :: "string option"
  tr_duration :: nat

record step_result =
  sr_step :: plan_step
  sr_status :: string
  sr_output :: "tool_result option"
  sr_duration :: "nat option"
  sr_error :: "string option"
  sr_failure :: bool

record execution_result =
  er_steps :: "step_result list"
  er_status :: string
  er_failure_reason :: "string option"
  er_output :: "string option"

text \<open>
  The result of one self-verification check. The confidence check also carries the
  \<open>score\<close> that \<open>verify\<close> reads.
\<close>

record check =
  passed :: bool
  critical :: bool
  message :: string
  score :: real

text \<open>
  Modelled from the spec: the class of a check result is not among the sources, which
  read \<open>check.passed\<close>, \<open>check.failed\<close> and \<open>check.critical\<close>. The specification gives a
  check the fields passed, critical and message, and calls a check with
  \<open>passed == false\<close> a failed one: \<open>failed\<close> is the negation of \<open>passed\<close>.
\<close>

definition failed :: "check \<Rightarrow> bool" where
  "failed c = (\<not> passed c)"

record verification_result =
  vr_passed :: bool
  vr_checks :: "check list"
  complete :: bool
  should_escalate :: bool
  confidence_score :: real
  issues :: "string list"

text \<open>
  Exceptions. The only distinction the executor makes is whether an exception is a
  \<open>ToolExecutionError\<close>; any other exception is given by its class name and message.
\<close>

datatype exn = ToolExecutionError string | OtherException string string

section \<open>Self-verifier (M1, 1.4)\<close>

text \<open>
  The six check methods and \<open>_extract_issues\<close> are not among the sources; they are
  parameters. A check that the source hands attributes of the context receives the
  context.
\<close>

record 'ctx verifier_env =
  check_policy_compliance :: "execution_result \<Rightarrow> 'ctx \<Rightarrow> check"
  check_completeness :: "execution_result \<Rightarrow> string list \<Rightarrow> check"
  check_consistency :: "execution_result \<Rightarrow> 'ctx \<Rightarrow> check"
  check_quality :: "execution_result \<Rightarrow> 'ctx \<Rightarrow> check"
  assess_confidence :: "execution_result \<Rightarrow> 'ctx \<Rightarrow> check"
  check_safety :: "execution_result \<Rightarrow> 'ctx \<Rightarrow> check"
  extract_issues :: "check list \<Rightarrow> string list"

text \<open>
  \<open>SelfVerifier.verify\<close>: the six checks are appended to \<open>checks\<close> in the source's order;
  Python's \<open>all\<close> and \<open>any\<close> over the list are \<open>list_all\<close> and \<open>list_ex\<close>.
\<close>

definition verify ::
  "'ctx verifier_env \<Rightarrow> execution_result \<Rightarrow> plan \<Rightarrow> 'ctx \<Rightarrow> verification_result" where
  "verify ve result pl context =
     (let policy_check = check_policy_compliance ve result context;
          completeness_check = check_completeness ve result (requirements pl);
          consistency_check = check_consistency ve result context;
          quality_check = check_quality ve result context;
          confidence_check = assess_confidence ve result context;
          safety_check = check_safety ve result context;
          checks = [policy_check, completeness_check, consistency_check,
                    quality_check, confidence_check, safety_check];
          all_passed = list_all passed checks;
          critical_failed = list_ex (\<lambda>c. failed c \<and> critical c) checks
      in \<lparr>vr_passed = all_passed,
          vr_checks = checks,
          complete = (all_passed \<and> \<not> has_more_steps pl),
          should_escalate = critical_failed,
          confidence_score = score confidence_check,
          issues = extract_issues ve checks\<rparr>)"

section \<open>Executor (M1, 1.3)\<close>

text \<open>
  A tool is what \<open>tool.execute(parameters, context)\<close> does: it returns a tool result or
  raises. \<open>ToolFramework.get_tool\<close>, \<open>_execute_parallel\<close>, \<open>context.add_step_result\<close> and
  \<open>_aggregate_outputs\<close> are not among the sources; they are parameters. The tool lookup
  and the parallel path may raise as well.
\<close>

type_synonym 'ctx tool = "string \<Rightarrow> 'ctx \<Rightarrow> exn + tool_result"

record 'ctx executor_env =
  get_tool :: "string \<Rightarrow> exn + 'ctx tool"
  execute_parallel :: "plan_step \<Rightarrow> 'ctx \<Rightarrow> exn + step_result"
  add_step_result :: "step_result \<Rightarrow> 'ctx \<Rightarrow> 'ctx"
  aggregate_outputs :: "step_result list \<Rightarrow> string"

text \<open>
  The state the Act phase works on: the execution context, and the list of the plan
  steps executed so far, in order. The list is not in the source; it records which
  steps the executor ran, so that "this step is not executed" can be stated.
\<close>

record 'ctx run_state =
  ctx :: 'ctx
  executed :: "plan_step list"

text \<open>
  \<open>Executor._execute_sequential\<close>: the tool lookup stands before the \<open>try\<close>; the
  \<open>except\<close> clause names \<open>ToolExecutionError\<close> only.
\<close>

definition execute_sequential ::
  "'ctx executor_env \<Rightarrow> plan_step \<Rightarrow> 'ctx \<Rightarrow> exn + step_result" where
  "execute_sequential ex step context =
     (case get_tool ex (tool_id step) of
        Inl e \<Rightarrow> Inl e
      | Inr tool \<Rightarrow>
          (case tool (parameters step) context of
             Inr tool_result \<Rightarrow>
               Inr \<lparr>sr_step = step, sr_status = ''SUCCESS'', sr_output = Some tool_result,
                    sr_duration = Some (tr_duration tool_result), sr_error = None,
                    sr_failure = False\<rparr>
           | Inl (ToolExecutionError msg) \<Rightarrow>
               Inr \<lparr>sr_step = step, sr_status = ''FAILED'', sr_output = None,
                    sr_duration = None, sr_error = Some msg, sr_failure = True\<rparr>
           | Inl (OtherException cls msg) \<Rightarrow> Inl (OtherException cls msg)))"

text \<open>The branch on \<open>step.parallel_safe\<close> at the head of the loop body of \<open>execute_plan\<close>.\<close>

definition execute_step ::
  "'ctx executor_env \<Rightarrow> plan_step \<Rightarrow> 'ctx \<Rightarrow> exn + step_result" where
  "execute_step ex step context =
     (if parallel_safe step then execute_parallel ex step context
      else execute_sequential ex step context)"

text \<open>
  The \<open>for\<close> loop of \<open>Executor.execute_plan\<close> over the steps still to run, with the list
  \<open>results\<close> as accumulator. An exception of a step leaves the loop and the function.
\<close>

fun execute_steps ::
  "'ctx executor_env \<Rightarrow> plan_step list \<Rightarrow> step_result list \<Rightarrow> 'ctx run_state
     \<Rightarrow> exn + (execution_result \<times> 'ctx run_state)" where
  "execute_steps ex [] results st =
     Inr (\<lparr>er_steps = results, er_status = ''SUCCESS'', er_failure_reason = None,
           er_output = Some (aggregate_outputs ex results)\<rparr>, st)"
| "execute_steps ex (step # rest) results st =
     (case execute_step ex step (ctx st) of
        Inl e \<Rightarrow> Inl e
      | Inr step_result \<Rightarrow>
          (let results' = results @ [step_result];
               st' = \<lparr>ctx = add_step_result ex step_result (ctx st),
                      executed = executed st @ [step]\<rparr>
           in if sr_failure step_result \<and> step_critical step
              then Inr (\<lparr>er_steps = results', er_status = ''FAILED'',
                         er_failure_reason = sr_error step_result, er_output = None\<rparr>, st')
              else execute_steps ex rest results' st'))"

definition execute_plan ::
  "'ctx executor_env \<Rightarrow> plan \<Rightarrow> 'ctx run_state \<Rightarrow> exn + (execution_result \<times> 'ctx run_state)" where
  "execute_plan ex pl st = execute_steps ex (steps pl) [] st"

section \<open>Orchestrator and planner (M1, 1.1 and 1.2)\<close>

text \<open>The \<open>Task\<close> dataclass of the input interface.\<close>

record task =
  task_id :: string
  task_description :: string
  task_user_id :: string
  task_domain :: "string option"
  task_priority :: string
  task_deadline :: "string option"
  task_requirements :: "string list"
  task_context :: "(string \<times> string) list"

text \<open>
  The \<open>AgentResponse\<close> dataclass of the output interface: eight fields, none with a
  default value.
\<close>

record agent_response =
  ar_task_id :: string
  ar_status :: string
  ar_result :: "execution_result option"
  ar_verification :: verification_result
  ar_trace :: "string list"
  ar_recommendations :: "string list"
  ar_requires_approval :: bool
  ar_hitl_tier :: hitl_tier

text \<open>
  The keyword arguments of a call \<open>AgentResponse(...)\<close>: for each field of the class the
  value passed, or \<open>None\<close> when the call does not pass it, and the keywords passed
  that are no field of the class, each with its value.
\<close>

record agent_response_kwargs =
  kw_task_id :: "string option"
  kw_status :: "string option"
  kw_result :: "execution_result option option"
  kw_verification :: "verification_result option"
  kw_trace :: "string list option"
  kw_recommendations :: "string list option"
  kw_requires_approval :: "bool option"
  kw_hitl_tier :: "hitl_tier option"
  kw_undeclared :: "(string \<times> string) list"

definition no_kwargs :: agent_response_kwargs where
  "no_kwargs =
     \<lparr>kw_task_id = None, kw_status = None, kw_result = None, kw_verification = None,
      kw_trace = None, kw_recommendations = None, kw_requires_approval = None,
      kw_hitl_tier = None, kw_undeclared = []\<rparr>"

text \<open>The fields of the class that a call does not pass, in the order of the class.\<close>

definition missing_arguments :: "agent_response_kwargs \<Rightarrow> string list" where
  "missing_arguments kw =
     (if kw_task_id kw = None then [''task_id''] else [])
     @ (if kw_status kw = None then [''status''] else [])
     @ (if kw_result kw = None then [''result''] else [])
     @ (if kw_verification kw = None then [''verification''] else [])
     @ (if kw_trace kw = None then [''trace''] else [])
     @ (if kw_recommendations kw = None then [''recommendations''] else [])
     @ (if kw_requires_approval kw = None then [''requires_approval''] else [])
     @ (if kw_hitl_tier kw = None then [''hitl_tier''] else [])"

fun comma_separated :: "string list \<Rightarrow> string" where
  "comma_separated [] = []"
| "comma_separated [name] = name"
| "comma_separated (name # names) = name @ '', '' @ comma_separated names"

text \<open>
  The constructor the dataclass generates: a keyword that is no field of the class, or
  a field that is not passed, makes the call raise \<open>TypeError\<close>. The message of the
  exception names the arguments at fault; its wording is not Python's.
\<close>

definition AgentResponse :: "agent_response_kwargs \<Rightarrow> exn + agent_response" where
  "AgentResponse kw =
     (case kw_undeclared kw of
        (name, v) # others \<Rightarrow>
          Inl (OtherException ''TypeError'' (''unexpected keyword argument: '' @ name))
      | [] \<Rightarrow>
          if missing_arguments kw \<noteq> []
          then Inl (OtherException ''TypeError''
                 (''missing required arguments: '' @ comma_separated (missing_arguments kw)))
          else Inr \<lparr>ar_task_id = the (kw_task_id kw),
                    ar_status = the (kw_status kw),
                    ar_result = the (kw_result kw),
                    ar_verification = the (kw_verification kw),
                    ar_trace = the (kw_trace kw),
                    ar_recommendations = the (kw_recommendations kw),
                    ar_requires_approval = the (kw_requires_approval kw),
                    ar_hitl_tier = the (kw_hitl_tier kw)\<rparr>)"

text \<open>
  The collaborators of the loop that are not among the sources: the construction of the
  execution context (the blueprints are loaded and the domain is classified there),
  \<open>gather_context\<close>, the two planner paths, \<open>context.update_from_verification\<close>, and the
  attributes \<open>context.trace\<close> and \<open>verification.escalation_reason\<close>.
\<close>

record 'ctx orchestrator_env =
  make_context :: "task \<Rightarrow> 'ctx"
  gather_context :: "'ctx \<Rightarrow> 'ctx"
  create_initial_plan :: "task \<Rightarrow> 'ctx \<Rightarrow> plan"
  adapt_plan :: "task \<Rightarrow> 'ctx \<Rightarrow> plan"
  executor :: "'ctx executor_env"
  verifier :: "'ctx verifier_env"
  update_from_verification :: "verification_result \<Rightarrow> 'ctx \<Rightarrow> 'ctx"
  context_trace :: "'ctx \<Rightarrow> string list"
  escalation_reason :: "verification_result \<Rightarrow> string"

text \<open>\<open>Planner.create_plan\<close>: a fresh plan at iteration 0, an adapted one afterwards.\<close>

definition create_plan :: "'ctx orchestrator_env \<Rightarrow> task \<Rightarrow> 'ctx \<Rightarrow> nat \<Rightarrow> plan" where
  "create_plan env t context iteration =
     (if iteration = 0 then create_initial_plan env t context
      else adapt_plan env t context)"

text \<open>Steps 1 to 4 of the loop body of \<open>execute_task\<close>: gather, plan, act, verify.\<close>

definition run_iteration ::
  "'ctx orchestrator_env \<Rightarrow> task \<Rightarrow> nat \<Rightarrow> 'ctx run_state
     \<Rightarrow> exn + (execution_result \<times> verification_result \<times> 'ctx run_state)" where
  "run_iteration env t iteration st =
     (let gathered_context = gather_context env (ctx st);
          pl = create_plan env t gathered_context iteration
      in case execute_plan (executor env) pl st of
           Inl e \<Rightarrow> Inl e
         | Inr (execution_result, st') \<Rightarrow>
             Inr (execution_result,
                  verify (verifier env) execution_result pl (ctx st'), st'))"

text \<open>
  The three \<open>return\<close> statements of \<open>execute_task\<close>, each a call of the constructor with
  the keywords the source passes: \<open>result\<close>, \<open>verification\<close> and \<open>trace\<close> when the
  verification is complete; \<open>status\<close>, \<open>reason\<close> and \<open>trace\<close> for an escalation; \<open>status\<close>
  and \<open>trace\<close> after the loop. \<open>reason\<close> is no field of the class.
\<close>

definition complete_kwargs ::
  "execution_result \<Rightarrow> verification_result \<Rightarrow> string list \<Rightarrow> agent_response_kwargs" where
  "complete_kwargs execution_result verification trace =
     no_kwargs\<lparr>kw_result := Some (Some execution_result),
               kw_verification := Some verification,
               kw_trace := Some trace\<rparr>"

definition escalated_kwargs :: "string \<Rightarrow> string list \<Rightarrow> agent_response_kwargs" where
  "escalated_kwargs reason trace =
     no_kwargs\<lparr>kw_status := Some ''ESCALATED'',
               kw_undeclared := [(''reason'', reason)],
               kw_trace := Some trace\<rparr>"

definition max_iterations_kwargs :: "string list \<Rightarrow> agent_response_kwargs" where
  "max_iterations_kwargs trace =
     no_kwargs\<lparr>kw_status := Some ''MAX_ITERATIONS'', kw_trace := Some trace\<rparr>"

text \<open>
  A \<open>return AgentResponse(...)\<close>: the response, with the state the function leaves, or
  the exception of the constructor.
\<close>

definition return_response ::
  "agent_response_kwargs \<Rightarrow> 'ctx run_state \<Rightarrow> exn + (agent_response \<times> 'ctx run_state)" where
  "return_response kw st =
     (case AgentResponse kw of
        Inl e \<Rightarrow> Inl e
      | Inr response \<Rightarrow> Inr (response, st))"

text \<open>
  The loop \<open>for iteration in range(max_iterations)\<close> with step 5 of its body, and the
  return after the loop. The first numeric argument counts the iterations still to
  run, the second is the loop variable. \<open>execute_task\<close> has no exception handler.
\<close>

fun agent_loop ::
  "'ctx orchestrator_env \<Rightarrow> task \<Rightarrow> nat \<Rightarrow> nat \<Rightarrow> 'ctx run_state
     \<Rightarrow> exn + (agent_response \<times> 'ctx run_state)" where
  "agent_loop env t 0 iteration st =
     return_response (max_iterations_kwargs (context_trace env (ctx st))) st"
| "agent_loop env t (Suc n) iteration st =
     (case run_iteration env t iteration st of
        Inl e \<Rightarrow> Inl e
      | Inr (execution_result, verification, st') \<Rightarrow>
          if complete verification
          then return_response
                 (complete_kwargs execution_result verification
                    (context_trace env (ctx st'))) st'
          else if should_escalate verification
          then return_response
                 (escalated_kwargs (escalation_reason env verification)
                    (context_trace env (ctx st'))) st'
          else agent_loop env t n (Suc iteration)
                 (st'\<lparr>ctx := update_from_verification env verification (ctx st')\<rparr>))"

definition max_iterations :: nat where
  "max_iterations = 10"

definition initial_state :: "'ctx orchestrator_env \<Rightarrow> task \<Rightarrow> 'ctx run_state" where
  "initial_state env t = \<lparr>ctx = make_context env t, executed = []\<rparr>"

definition execute_task ::
  "'ctx orchestrator_env \<Rightarrow> task \<Rightarrow> exn + (agent_response \<times> 'ctx run_state)" where
  "execute_task env t = agent_loop env t max_iterations 0 (initial_state env t)"


text \<open>
  Whether each of the next \<open>n\<close> iterations, from loop variable \<open>iteration\<close> and state
  \<open>st\<close>, ends with a verification result that is neither complete nor asks for
  escalation (so no exception leaves the Act phase either).
\<close>

fun iterations_continue ::
  "'ctx orchestrator_env \<Rightarrow> task \<Rightarrow> nat \<Rightarrow> nat \<Rightarrow> 'ctx run_state \<Rightarrow> bool" where
  "iterations_continue env t 0 iteration st = True"
| "iterations_continue env t (Suc n) iteration st =
     (case run_iteration env t iteration st of
        Inl e \<Rightarrow> False
      | Inr (execution_result, verification, st') \<Rightarrow>
          \<not> complete verification \<and> \<not> should_escalate verification \<and>
          iterations_continue env t n (Suc iteration)
            (st'\<lparr>ctx := update_from_verification env verification (ctx st')\<rparr>))"

section \<open>A concrete environment\<close>

text \<open>
  A small environment on which the loop can be run. The context is a list of strings,
  a log the context methods append to. Three tools are registered: \<open>lookup\<close> succeeds,
  \<open>submit\<close> raises a \<open>ToolExecutionError\<close>, and \<open>fetch\<close> raises a \<open>KeyError\<close>; any other
  identifier is not found. The completeness check passes when no step failed; the
  safety check is critical and passes unless the execution result is \<open>FAILED\<close>; the
  other checks pass. The planner returns the given plan at every iteration.
\<close>

definition demo_get_tool :: "string \<Rightarrow> exn + (string list) tool" where
  "demo_get_tool name =
     (if name = ''lookup'' then
        Inr (\<lambda>params context. Inr \<lparr>tr_status = ''SUCCESS'', tr_data = params,
                                     tr_error = None, tr_tool_id = Some ''lookup'',
                                     tr_duration = 1\<rparr>)
      else if name = ''submit'' then
        Inr (\<lambda>params context. Inl (ToolExecutionError ''rejected''))
      else if name = ''fetch'' then
        Inr (\<lambda>params context. Inl (OtherException ''KeyError'' ''patient_id''))
      else Inl (OtherException ''ToolNotFoundError'' name))"

definition demo_executor :: "(string list) executor_env" where
  "demo_executor =
     \<lparr>get_tool = demo_get_tool,
      execute_parallel = (\<lambda>step context.
         Inr \<lparr>sr_step = step, sr_status = ''SUCCESS'', sr_output = None,
              sr_duration = None, sr_error = None, sr_failure = False\<rparr>),
      add_step_result = (\<lambda>step_result context. context @ [sr_status step_result]),
      aggregate_outputs = (\<lambda>results. concat (map sr_status results))\<rparr>"

definition passing_check :: check where
  "passing_check = \<lparr>passed = True, critical = False, message = ''ok'', score = 1\<rparr>"

definition demo_verifier :: "(string list) verifier_env" where
  "demo_verifier =
     \<lparr>check_policy_compliance = (\<lambda>result context. passing_check),
      check_completeness = (\<lambda>result reqs.
         \<lparr>passed = list_all (\<lambda>r. \<not> sr_failure r) (er_steps result), critical = False,
          message = ''completeness'', score = 1\<rparr>),
      check_consistency = (\<lambda>result context. passing_check),
      check_quality = (\<lambda>result context. passing_check),
      assess_confidence = (\<lambda>result context. passing_check),
      check_safety = (\<lambda>result context.
         \<lparr>passed = (er_status result \<noteq> ''FAILED''), critical = True,
          message = ''safety'', score = 1\<rparr>),
      extract_issues = (\<lambda>checks. map message (filter (\<lambda>c. \<not> passed c) checks))\<rparr>"

definition demo_env :: "plan \<Rightarrow> (string list) orchestrator_env" where
  "demo_env pl =
     \<lparr>make_context = (\<lambda>t. []),
      gather_context = (\<lambda>context. context),
      create_initial_plan = (\<lambda>t context. pl),
      adapt_plan = (\<lambda>t context. pl),
      executor = demo_executor,
      verifier = demo_verifier,
      update_from_verification = (\<lambda>verification context. context @ [''adapt'']),
      context_trace = (\<lambda>context. context),
      escalation_reason = (\<lambda>verification. ''critical check failed'')\<rparr>"

definition demo_step :: "string \<Rightarrow> bool \<Rightarrow> plan_step" where
  "demo_step name crit =
     \<lparr>tool_id = name, parameters = ''{}'', step_critical = crit, parallel_safe = False\<rparr>"

definition demo_plan :: "plan_step list \<Rightarrow> plan" where
  "demo_plan ss =
     \<lparr>steps = ss, rationale = ''demo'', requirements = [], has_more_steps = False,
      plan_iteration = 0\<rparr>"

definition demo_task :: task where
  "demo_task =
     \<lparr>task_id = ''T1'', task_description = ''demo'', task_user_id = ''alice'',
      task_domain = None, task_priority = ''normal'', task_deadline = None,
      task_requirements = [], task_context = []\<rparr>"

section \<open>Context budget manager (M2, 2.3)\<close>

text \<open>
  Token counts are Python integers. The table of allocations is a dictionary, read
  with \<open>allocations.get(category, 0)\<close>.
\<close>

record context_budget_manager =
  total_budget :: int
  allocations :: "string \<rightharpoonup> int"
  used :: int

record budget_check_result =
  bc_status :: string
  bc_action :: string

text \<open>The constructor \<open>__init__\<close>.\<close>

definition new_budget_manager :: context_budget_manager where
  "new_budget_manager =
     \<lparr>total_budget = 200000,
      allocations = map_of
        [(''meta_blueprint'', 2000), (''working_memory'', 50000), (''tool_results'', 30000),
         (''blueprints'', 20000), (''reasoning'', 40000), (''output'', 10000),
         (''safety'', 8000), (''dynamic'', 40000)],
      used = 0\<rparr>"

text \<open>
  \<open>check_budget\<close>. The source computes \<open>available\<close> and never reads it. The threshold
  \<open>total_budget * 0.8\<close> is a float product; \<open>used + requested > total_budget * 0.8\<close> is
  written over the integers as \<open>10 * (used + requested) > 8 * total_budget\<close> (for the
  budget of 200000 the float product is exactly 160000). The manager itself is not
  changed by the check.
\<close>

definition check_budget ::
  "context_budget_manager \<Rightarrow> string \<Rightarrow> int \<Rightarrow> budget_check_result" where
  "check_budget m category requested =
     (let allocated = (case allocations m category of Some a \<Rightarrow> a | None \<Rightarrow> 0);
          available = total_budget m - used m
      in if requested > allocated
         then \<lparr>bc_status = ''OVER_ALLOCATION'', bc_action = ''TRIGGER_COMPACTION''\<rparr>
         else if 10 * (used m + requested) > 8 * total_budget m
         then \<lparr>bc_status = ''WARNING'', bc_action = ''APPROACHING_LIMIT''\<rparr>
         else \<lparr>bc_status = ''APPROVED'', bc_action = ''PROCEED''\<rparr>)"

definition allocate :: "context_budget_manager \<Rightarrow> string \<Rightarrow> int \<Rightarrow> context_budget_manager" where
  "allocate m category amount = m\<lparr>used := used m + amount\<rparr>"

definition release :: "context_budget_manager \<Rightarrow> string \<Rightarrow> int \<Rightarrow> context_budget_manager" where
  "release m category amount = m\<lparr>used := max 0 (used m - amount)\<rparr>"

text \<open>
  A sequence of calls on one manager: each call acts on the manager the calls before it
  have left; the results of the \<open>check_budget\<close> calls are collected in order.
\<close>

datatype budget_call =
  CheckBudget string int
| Allocate string int
| Release string int

fun run_budget_calls ::
  "context_budget_manager \<Rightarrow> budget_call list
     \<Rightarrow> context_budget_manager \<times> budget_check_result list" where
  "run_budget_calls m [] = (m, [])"
| "run_budget_calls m (CheckBudget category requested # calls) =
     (let (m', results) = run_budget_calls m calls
      in (m', check_budget m category requested # results))"
| "run_budget_calls m (Allocate category amount # calls) =
     run_budget_calls (allocate m category amount) calls"
| "run_budget_calls m (Release category amount # calls) =
     run_budget_calls (release m category amount) calls"

section \<open>Compaction service (M2, 2.4)\<close>

text \<open>
  The working memory, with the attributes of \<open>WorkingMemory.__init__\<close>; the items it
  holds are strings. The compact memory and the result have the fields the
  constructor calls pass.
\<close>

record working_memory =
  max_tokens :: int
  conversation_history :: "string list"
  task_state :: string
  tool_results :: "(string \<times> string) list"
  temporary_conclusions :: "string list"
  error_history :: "string list"

record compact_memory =
  critical_data :: "string list"
  conversation_summary :: string
  tool_summary :: string
  original_size :: int
  compressed_size :: int

record loss_verification =
  lv_passed :: bool
  missing_items :: "string list"

record compaction_result =
  cr_compact_memory :: compact_memory
  compression_ratio :: real

text \<open>
  What \<open>compact_working_memory\<close> can raise: the \<open>CompactionError\<close> of its \<open>raise\<close>
  statement, with the missing items of its message, and the \<open>ZeroDivisionError\<close> of the
  division \<open>original_size / compressed_size\<close>.
\<close>

datatype compaction_exn = CompactionError "string list" | ZeroDivisionError

text \<open>
  The helpers of the service and the token counter of the working memory are not among
  the sources; they are parameters.
\<close>

record compaction_env =
  extract_critical_data :: "working_memory \<Rightarrow> string list"
  summarize_conversation :: "string list \<Rightarrow> nat \<Rightarrow> string"
  compress_tool_results :: "(string \<times> string) list \<Rightarrow> string"
  memory_count_tokens :: "working_memory \<Rightarrow> int"
  count_tokens :: "string list \<Rightarrow> string \<Rightarrow> string \<Rightarrow> int"
  verify_no_data_loss :: "working_memory \<Rightarrow> compact_memory \<Rightarrow> loss_verification"

text \<open>
  \<open>compact_working_memory\<close>. The parameter \<open>target_tokens\<close> is not read by the body. The
  division of the last statement is Python's true division, which raises on a zero
  divisor.
\<close>

definition compact_working_memory ::
  "compaction_env \<Rightarrow> working_memory \<Rightarrow> int \<Rightarrow> compaction_exn + compaction_result" where
  "compact_working_memory ce wm target_tokens =
     (let critical = extract_critical_data ce wm;
          summary = summarize_conversation ce (conversation_history wm) 10;
          tools = compress_tool_results ce (tool_results wm);
          cm = \<lparr>critical_data = critical,
                conversation_summary = summary,
                tool_summary = tools,
                original_size = memory_count_tokens ce wm,
                compressed_size = count_tokens ce critical summary tools\<rparr>;
          verification = verify_no_data_loss ce wm cm
      in if \<not> lv_passed verification
         then Inl (CompactionError (missing_items verification))
         else if compressed_size cm = 0 then Inl ZeroDivisionError
         else Inr \<lparr>cr_compact_memory = cm,
                   compression_ratio =
                     real_of_int (original_size cm) / real_of_int (compressed_size cm)\<rparr>)"

text \<open>
  A concrete service: an item of the conversation is critical when it starts with an
  exclamation mark; the summary keeps the first of every ten turns; a token is a
  character; the verification looks for the critical items of the memory in the
  critical data of the compact memory.
\<close>

definition demo_critical :: "string \<Rightarrow> bool" where
  "demo_critical item = (case item of [] \<Rightarrow> False | c # cs \<Rightarrow> c = CHR ''!'')"

definition demo_compaction :: compaction_env where
  "demo_compaction =
     \<lparr>extract_critical_data = (\<lambda>wm. filter demo_critical (conversation_history wm)),
      summarize_conversation = (\<lambda>turns ratio. concat (take (length turns div ratio) turns)),
      compress_tool_results = (\<lambda>results. concat (map fst results)),
      memory_count_tokens = (\<lambda>wm. int (length (concat (conversation_history wm)))
                                 + int (length (concat (map snd (tool_results wm))))),
      count_tokens = (\<lambda>critical summary tools.
         int (length (concat critical)) + int (length summary) + int (length tools)),
      verify_no_data_loss = (\<lambda>wm cm.
         \<lparr>lv_passed = list_all (\<lambda>item. item \<in> set (critical_data cm))
                        (filter demo_critical (conversation_history wm)),
          missing_items = filter (\<lambda>item. item \<notin> set (critical_data cm))
                            (filter demo_critical (conversation_history wm))\<rparr>)\<rparr>"

definition empty_working_memory :: working_memory where
  "empty_working_memory =
     \<lparr>max_tokens = 50000, conversation_history = [], task_state = [],
      tool_results = [], temporary_conclusions = [], error_history = []\<rparr>"


section \<open>Tool executor (M3, 3.3)\<close>

text \<open>
  The \<open>ToolSpecification\<close> dataclass of the tool interface. Of the attribute \<open>sla\<close>, whose
  class is not among the sources, the timeout that \<open>execute\<close> reads is kept. The class
  has no attribute \<open>cacheable\<close> and no attribute \<open>cache_ttl\<close>.
\<close>

record tool_specification =
  spec_id :: string
  spec_name :: string
  spec_version :: string
  mcp_endpoint :: string
  capabilities :: "string list"
  parameter_schema :: string
  output_schema :: string
  risk_tier :: string
  requires_consent :: bool
  sla_timeout :: nat
  examples :: "string list"

record auth_result =
  authorized :: bool
  auth_reason :: string
  credentials :: string

record consent =
  granted :: bool

text \<open>
  What \<open>execute\<close> and its collaborators raise. \<open>MCPError\<close> is the class the \<open>except\<close>
  clause of \<open>execute\<close> names; any other exception of a collaborator is given by its
  class name and message.
\<close>

datatype tool_exn =
  UnauthorizedError string
| ConsentDeniedError
| MCPError string
| OtherToolError string string

text \<open>
  What the executor does to the world, in order: the two security checks, the reads
  and writes of the result cache by key, and the calls of the tool by endpoint. The
  list is not in the source; it records the order of the effects. No path of \<open>execute\<close>
  reaches the write to the cache (see the body of the \<open>try\<close> below), so no \<open>CacheWrite\<close>
  is ever recorded.
\<close>

datatype tool_event =
  AuthorizationCheck
| ConsentCheck
| CacheRead string
| ToolCall string
| CacheWrite string

text \<open>
  The state of the executor: the result cache (a dictionary from cache keys to tool
  results; the expiry of entries is not modelled) and the events so far.
\<close>

record tool_executor_state =
  result_cache :: "string \<rightharpoonup> tool_result"
  events :: "tool_event list"

text \<open>
  The security service and the private helpers of the executor are not among the
  sources; they are parameters. So is the call of the MCP client (M4), whose transport
  is not among the sources: it is taken by what it returns or raises.
\<close>

record tool_executor_env =
  check_authorization :: "string \<Rightarrow> tool_specification \<Rightarrow> auth_result"
  get_consent :: "string \<Rightarrow> tool_specification \<Rightarrow> string \<Rightarrow> consent"
  validate_parameters :: "string \<Rightarrow> string \<Rightarrow> tool_exn + string"
  generate_cache_key :: "tool_specification \<Rightarrow> string \<Rightarrow> string"
  call_tool :: "string \<Rightarrow> string \<Rightarrow> nat \<Rightarrow> string \<Rightarrow> tool_exn + string"
  verify_result :: "string \<Rightarrow> tool_specification \<Rightarrow> tool_exn + tool_result"

definition record_event :: "tool_event \<Rightarrow> tool_executor_state \<Rightarrow> tool_executor_state" where
  "record_event ev st = st\<lparr>events := events st @ [ev]\<rparr>"

text \<open>
  Steps 5 to 7 of \<open>execute\<close>, the body of its \<open>try\<close>: the call, the verification of the
  result and the write to the cache. An \<open>MCPError\<close> raised in the body becomes a tool
  result with status \<open>FAILED\<close>; any other exception leaves \<open>execute\<close>. Step 7 starts by
  reading \<open>tool_spec.cacheable\<close>, which the tool specification does not have: the read
  raises \<open>AttributeError\<close>, so the write to the cache that follows it is never reached
  and a call that gets this far returns nothing.
\<close>

definition call_and_verify ::
  "tool_executor_env \<Rightarrow> tool_specification \<Rightarrow> string \<Rightarrow> string
     \<Rightarrow> tool_executor_state \<Rightarrow> (tool_exn + tool_result) \<times> tool_executor_state" where
  "call_and_verify te tool_spec validated_params creds st =
     (let st_called = record_event (ToolCall (mcp_endpoint tool_spec)) st;
          failed_result = (\<lambda>msg. \<lparr>tr_status = ''FAILED'', tr_data = [], tr_error = Some msg,
                                    tr_tool_id = Some (spec_id tool_spec), tr_duration = 0\<rparr>)
      in case call_tool te (mcp_endpoint tool_spec) validated_params
                (sla_timeout tool_spec) creds of
           Inl (MCPError msg) \<Rightarrow> (Inr (failed_result msg), st_called)
         | Inl e \<Rightarrow> (Inl e, st_called)
         | Inr mcp_result \<Rightarrow>
             (case verify_result te mcp_result tool_spec of
                Inl (MCPError msg) \<Rightarrow> (Inr (failed_result msg), st_called)
              | Inl e \<Rightarrow> (Inl e, st_called)
              | Inr verified_result \<Rightarrow>
                  (Inl (OtherToolError ''AttributeError'' ''cacheable''), st_called)))"

text \<open>
  \<open>ToolExecutor.execute\<close>, steps 1 to 4 and then the body above: authorization, consent
  when the tool requires it, validation of the parameters, the cache, the call. The
  user is \<open>context.user\<close>.
\<close>

definition execute ::
  "tool_executor_env \<Rightarrow> tool_specification \<Rightarrow> string \<Rightarrow> string
     \<Rightarrow> tool_executor_state \<Rightarrow> (tool_exn + tool_result) \<times> tool_executor_state" where
  "execute te tool_spec params user st =
     (let auth = check_authorization te user tool_spec;
          st_auth = record_event AuthorizationCheck st
      in if \<not> authorized auth then (Inl (UnauthorizedError (auth_reason auth)), st_auth)
         else
           let st_consent = (if requires_consent tool_spec
                             then record_event ConsentCheck st_auth else st_auth)
           in if requires_consent tool_spec
                 \<and> \<not> granted (get_consent te user tool_spec params)
              then (Inl ConsentDeniedError, st_consent)
              else
                (case validate_parameters te params (parameter_schema tool_spec) of
                   Inl e \<Rightarrow> (Inl e, st_consent)
                 | Inr validated_params \<Rightarrow>
                     (let cache_key = generate_cache_key te tool_spec validated_params;
                          st_read = record_event (CacheRead cache_key) st_consent
                      in case result_cache st_read cache_key of
                           Some cached \<Rightarrow> (Inr cached, st_read)
                         | None \<Rightarrow>
                             call_and_verify te tool_spec validated_params
                               (credentials auth) st_read)))"

text \<open>Whether an event touches the result cache or the tool.\<close>

fun cache_or_tool_event :: "tool_event \<Rightarrow> bool" where
  "cache_or_tool_event (CacheRead key) = True"
| "cache_or_tool_event (ToolCall endpoint) = True"
| "cache_or_tool_event (CacheWrite key) = True"
| "cache_or_tool_event AuthorizationCheck = False"
| "cache_or_tool_event ConsentCheck = False"

text \<open>
  A concrete executor: the users \<open>alice\<close> and \<open>bob\<close> are authorized, nobody else is; only \<open>alice\<close>
  consents; the cache key is the tool identifier and the parameters; the tool echoes
  its parameters.
\<close>

definition demo_tool_executor :: tool_executor_env where
  "demo_tool_executor =
     \<lparr>check_authorization = (\<lambda>user tool_spec.
         \<lparr>authorized = (user = ''alice'' \<or> user = ''bob''),
          auth_reason = ''role not allowed'', credentials = ''token''\<rparr>),
      get_consent = (\<lambda>user tool_spec params. \<lparr>granted = (user = ''alice'')\<rparr>),
      validate_parameters = (\<lambda>params schema. Inr params),
      generate_cache_key = (\<lambda>tool_spec params. spec_id tool_spec @ '':'' @ params),
      call_tool = (\<lambda>endpoint params timeout creds. Inr params),
      verify_result = (\<lambda>mcp_result tool_spec.
         Inr \<lparr>tr_status = ''SUCCESS'', tr_data = mcp_result, tr_error = None,
              tr_tool_id = Some (spec_id tool_spec), tr_duration = 1\<rparr>)\<rparr>"

definition demo_tool_spec :: tool_specification where
  "demo_tool_spec =
     \<lparr>spec_id = ''fetch_patient_data'', spec_name = ''Fetch patient data'',
      spec_version = ''2.1.0'', mcp_endpoint = ''mcp://ehr/patient_data'',
      capabilities = [], parameter_schema = ''{}'', output_schema = ''{}'',
      risk_tier = ''HIGH'', requires_consent = True, sla_timeout = 1000,
      examples = []\<rparr>"

definition demo_cached_result :: tool_result where
  "demo_cached_result =
     \<lparr>tr_status = ''SUCCESS'', tr_data = ''cached'', tr_error = None,
      tr_tool_id = Some ''fetch_patient_data'', tr_duration = 1\<rparr>"

definition demo_cached_state :: tool_executor_state where
  "demo_cached_state =
     \<lparr>result_cache = [''fetch_patient_data:p1'' \<mapsto> demo_cached_result], events = []\<rparr>"


section \<open>Properties of the tier classifier\<close>

text \<open>
  C2, as stated: for every action with a sensitivity in PUBLIC..RESTRICTED the
  classifier computes exactly the four-row table. It does not: for a MEDIUM impact,
  fully reversible action on RESTRICTED data no row of the table matches, and the
  classifier answers tier 2.
\<close>

theorem classify_action_table_counterexample:
  "spec_decision_table MEDIUM FULL RESTRICTED = None
   \<and> classify_action \<lparr>assess_impact = MEDIUM, assess_reversibility = FULL,
                        assess_data_sensitivity = RESTRICTED\<rparr> = TIER_2
   \<and> spec_decision_table MEDIUM FULL RESTRICTED
       \<noteq> Some (classify_action \<lparr>assess_impact = MEDIUM, assess_reversibility = FULL,
                                  assess_data_sensitivity = RESTRICTED\<rparr>)"
  by (simp add: spec_decision_table_def classify_action_def)

text \<open>
  C2, amended: for every action with a sensitivity in PUBLIC..RESTRICTED, the classifier
  returns the tier of the first matching row of the table whenever a row matches; where
  no row matches it returns tier 2 for MEDIUM impact with FULL or PARTIAL reversibility
  (the second branch has no sensitivity condition) and tier 4 otherwise (the last
  branch is a catch-all).
\<close>

theorem classify_action_table:
  "assess_data_sensitivity a \<noteq> PHI \<Longrightarrow>
   classify_action a =
     (case spec_decision_table (assess_impact a) (assess_reversibility a)
             (assess_data_sensitivity a) of
        Some t \<Rightarrow> t
      | None \<Rightarrow> if assess_impact a = MEDIUM \<and> assess_reversibility a \<noteq> NONE
                then TIER_2 else TIER_4)"
  by (cases "assess_impact a"; cases "assess_reversibility a";
      cases "assess_data_sensitivity a")
     (simp_all add: classify_action_def spec_decision_table_def)

theorem classify_action_table_witness:
  "RESTRICTED \<noteq> PHI
   \<and> classify_action \<lparr>assess_impact = LOW, assess_reversibility = NONE,
                        assess_data_sensitivity = RESTRICTED\<rparr> = TIER_4
   \<and> spec_decision_table LOW NONE RESTRICTED = Some TIER_4"
  using classify_action_table
          [of "\<lparr>assess_impact = LOW, assess_reversibility = NONE,
                assess_data_sensitivity = RESTRICTED\<rparr>"]
  by (simp add: spec_decision_table_def)

text \<open>
  C3: two actions that differ only in their data sensitivity, PUBLIC for one and
  RESTRICTED for the other: the tier of the RESTRICTED one is at least the tier of the
  PUBLIC one.
\<close>

theorem classify_action_sensitivity_monotone:
  "tier_number (classify_action \<lparr>assess_impact = i, assess_reversibility = r,
                                   assess_data_sensitivity = PUBLIC\<rparr>)
   \<le> tier_number (classify_action \<lparr>assess_impact = i, assess_reversibility = r,
                                     assess_data_sensitivity = RESTRICTED\<rparr>)"
  by (simp add: classify_action_def)

section \<open>Properties of the self-verifier\<close>

text \<open>
  C1: for every execution result, plan and context, \<open>verify\<close> returns the six checks in
  the fixed order; \<open>passed\<close> is the conjunction of the six checks' passed flags,
  \<open>complete\<close> is \<open>passed\<close> and no remaining plan steps, and \<open>should_escalate\<close> holds
  exactly when some check both failed and is critical. So one failed critical check
  forces \<open>should_escalate\<close>, whatever the other checks say.
\<close>

theorem verify_aggregate:
  "vr_checks (verify ve result pl context) =
     [check_policy_compliance ve result context,
      check_completeness ve result (requirements pl),
      check_consistency ve result context,
      check_quality ve result context,
      assess_confidence ve result context,
      check_safety ve result context]
   \<and> vr_passed (verify ve result pl context)
       = list_all passed (vr_checks (verify ve result pl context))
   \<and> complete (verify ve result pl context)
       = (vr_passed (verify ve result pl context) \<and> \<not> has_more_steps pl)
   \<and> should_escalate (verify ve result pl context)
       = list_ex (\<lambda>c. \<not> passed c \<and> critical c) (vr_checks (verify ve result pl context))
   \<and> (\<forall>c. c \<in> set (vr_checks (verify ve result pl context)) \<and> \<not> passed c \<and> critical c
          \<longrightarrow> should_escalate (verify ve result pl context))"
proof -
  let ?v = "verify ve result pl context"
  have checks: "vr_checks ?v =
     [check_policy_compliance ve result context,
      check_completeness ve result (requirements pl),
      check_consistency ve result context,
      check_quality ve result context,
      assess_confidence ve result context,
      check_safety ve result context]"
    by (simp add: verify_def Let_def)
  have all_passed: "vr_passed ?v = list_all passed (vr_checks ?v)"
    by (simp add: verify_def Let_def)
  have compl: "complete ?v = (vr_passed ?v \<and> \<not> has_more_steps pl)"
    by (simp add: verify_def Let_def)
  have esc: "should_escalate ?v = list_ex (\<lambda>c. \<not> passed c \<and> critical c) (vr_checks ?v)"
    by (simp add: verify_def Let_def failed_def)
  have forced: "\<forall>c. c \<in> set (vr_checks ?v) \<and> \<not> passed c \<and> critical c \<longrightarrow> should_escalate ?v"
    unfolding esc list_ex_iff by blast
  from checks all_passed compl esc forced show ?thesis by blast
qed

lemmas demo_defs = demo_env_def demo_executor_def demo_verifier_def demo_get_tool_def
  demo_step_def demo_plan_def demo_task_def passing_check_def

lemmas loop_defs = execute_task_def initial_state_def run_iteration_def create_plan_def
  execute_plan_def execute_step_def execute_sequential_def verify_def failed_def
  max_iterations_def Let_def

lemmas response_defs = return_response_def AgentResponse_def missing_arguments_def
  no_kwargs_def complete_kwargs_def escalated_kwargs_def max_iterations_kwargs_def

theorem verify_aggregate_witness:
  "\<lparr>passed = False, critical = True, message = ''safety'', score = 1\<rparr>
     \<in> set (vr_checks (verify demo_verifier
            \<lparr>er_steps = [], er_status = ''FAILED'', er_failure_reason = None,
             er_output = None\<rparr> (demo_plan []) []))
   \<and> should_escalate (verify demo_verifier
         \<lparr>er_steps = [], er_status = ''FAILED'', er_failure_reason = None,
          er_output = None\<rparr> (demo_plan []) [])
   \<and> \<not> vr_passed (verify demo_verifier
         \<lparr>er_steps = [], er_status = ''FAILED'', er_failure_reason = None,
          er_output = None\<rparr> (demo_plan []) [])"
  using verify_aggregate
          [of demo_verifier
              "\<lparr>er_steps = [], er_status = ''FAILED'', er_failure_reason = None,
                er_output = None\<rparr>" "demo_plan []" "[]"]
  by (simp add: demo_defs)

section \<open>Properties of the executor\<close>

text \<open>
  Steps that run through without an abort leave the loop where it would have started
  with the steps after them; each of them is executed once, in order.
\<close>

lemma execute_steps_append:
  "execute_steps ex pre results st = Inr (r, st') \<Longrightarrow> er_status r = ''SUCCESS'' \<Longrightarrow>
   execute_steps ex (pre @ rest) results st = execute_steps ex rest (er_steps r) st'"
proof (induction pre arbitrary: results st)
  case Nil
  then show ?case by auto
next
  case (Cons step pre)
  then show ?case
    by (auto simp: Let_def split: sum.splits if_splits)
qed

lemma execute_steps_executed:
  "execute_steps ex pre results st = Inr (r, st') \<Longrightarrow> er_status r = ''SUCCESS'' \<Longrightarrow>
   executed st' = executed st @ pre \<and> length (er_steps r) = length results + length pre"
proof (induction pre arbitrary: results st)
  case Nil
  then show ?case by auto
next
  case (Cons step pre)
  then show ?case
    by (fastforce simp: Let_def split: sum.splits if_splits)
qed

text \<open>
  C5: a plan whose steps are \<open>pre\<close>, then \<open>step\<close>, then \<open>post\<close>. When the steps of \<open>pre\<close>
  have run through and the critical step \<open>step\<close> produces a failed step result,
  \<open>execute_plan\<close> returns at once: the execution result has status \<open>FAILED\<close> and holds
  the step results produced so far (those of \<open>pre\<close> and the failed one), and the steps
  executed are those of \<open>pre\<close> and \<open>step\<close>: no step of \<open>post\<close> is executed.
\<close>

theorem execute_plan_critical_failure_aborts:
  assumes plan_steps: "steps pl = pre @ step # post"
    and before: "execute_steps ex pre [] st = Inr (r_pre, st_pre)"
    and before_ok: "er_status r_pre = ''SUCCESS''"
    and crit: "step_critical step"
    and result: "execute_step ex step (ctx st_pre) = Inr step_result"
    and failure: "sr_failure step_result"
  shows "execute_plan ex pl st =
           Inr (\<lparr>er_steps = er_steps r_pre @ [step_result], er_status = ''FAILED'',
                 er_failure_reason = sr_error step_result, er_output = None\<rparr>,
                \<lparr>ctx = add_step_result ex step_result (ctx st_pre),
                 executed = executed st @ pre @ [step]\<rparr>)
         \<and> length (er_steps r_pre @ [step_result]) = length pre + 1"
proof -
  have ex_pre: "executed st_pre = executed st @ pre"
    and len_pre: "length (er_steps r_pre) = length pre"
    using execute_steps_executed [OF before before_ok] by simp_all
  have "execute_plan ex pl st = execute_steps ex (step # post) (er_steps r_pre) st_pre"
    unfolding execute_plan_def plan_steps
    by (rule execute_steps_append [OF before before_ok])
  also have "\<dots> = Inr (\<lparr>er_steps = er_steps r_pre @ [step_result], er_status = ''FAILED'',
                 er_failure_reason = sr_error step_result, er_output = None\<rparr>,
                \<lparr>ctx = add_step_result ex step_result (ctx st_pre),
                 executed = executed st_pre @ [step]\<rparr>)"
    using crit result failure by (simp add: Let_def)
  finally show ?thesis using ex_pre len_pre by simp
qed

theorem execute_plan_critical_failure_aborts_witness:
  "execute_plan demo_executor
     (demo_plan [demo_step ''lookup'' False, demo_step ''submit'' True,
                 demo_step ''lookup'' False])
     \<lparr>ctx = [], executed = []\<rparr>
   = Inr (\<lparr>er_steps =
            [\<lparr>sr_step = demo_step ''lookup'' False, sr_status = ''SUCCESS'',
              sr_output = Some \<lparr>tr_status = ''SUCCESS'', tr_data = ''{}'',
                                 tr_error = None, tr_tool_id = Some ''lookup'',
                                 tr_duration = 1\<rparr>,
              sr_duration = Some 1, sr_error = None, sr_failure = False\<rparr>,
             \<lparr>sr_step = demo_step ''submit'' True, sr_status = ''FAILED'',
              sr_output = None, sr_duration = None, sr_error = Some ''rejected'',
              sr_failure = True\<rparr>],
           er_status = ''FAILED'', er_failure_reason = Some ''rejected'',
           er_output = None\<rparr>,
          \<lparr>ctx = [''SUCCESS'', ''FAILED''],
           executed = [demo_step ''lookup'' False, demo_step ''submit'' True]\<rparr>)"
  using execute_plan_critical_failure_aborts
          [of "demo_plan [demo_step ''lookup'' False, demo_step ''submit'' True,
                          demo_step ''lookup'' False]"
              "[demo_step ''lookup'' False]" "demo_step ''submit'' True"
              "[demo_step ''lookup'' False]" demo_executor "\<lparr>ctx = [], executed = []\<rparr>"
              "\<lparr>er_steps =
                 [\<lparr>sr_step = demo_step ''lookup'' False, sr_status = ''SUCCESS'',
                   sr_output = Some \<lparr>tr_status = ''SUCCESS'', tr_data = ''{}'',
                                      tr_error = None, tr_tool_id = Some ''lookup'',
                                      tr_duration = 1\<rparr>,
                   sr_duration = Some 1, sr_error = None, sr_failure = False\<rparr>],
                er_status = ''SUCCESS'', er_failure_reason = None,
                er_output = Some ''SUCCESS''\<rparr>"
              "\<lparr>ctx = [''SUCCESS''], executed = [demo_step ''lookup'' False]\<rparr>"
              "\<lparr>sr_step = demo_step ''submit'' True, sr_status = ''FAILED'',
                sr_output = None, sr_duration = None, sr_error = Some ''rejected'',
                sr_failure = True\<rparr>"]
  by (simp add: demo_defs execute_step_def execute_sequential_def)


text \<open>
  C7, as stated: every exception raised while a plan step is executed, of any type,
  becomes a step result with status \<open>FAILED\<close>, and none leaves the loop of the
  orchestrator. It does not hold: a tool that raises a \<open>KeyError\<close> makes
  \<open>_execute_sequential\<close> raise it, and \<open>execute_task\<close> raises it in turn.
\<close>

theorem execute_sequential_exception_counterexample:
  "execute_sequential demo_executor (demo_step ''fetch'' False) []
     = Inl (OtherException ''KeyError'' ''patient_id'')
   \<and> execute_task (demo_env (demo_plan [demo_step ''fetch'' False])) demo_task
     = Inl (OtherException ''KeyError'' ''patient_id'')"
  by (simp add: demo_defs loop_defs eval_nat_numeral)

text \<open>
  C7, amended: a \<open>ToolExecutionError\<close> raised by the tool's \<open>execute\<close> call is converted
  into a step result with status \<open>FAILED\<close>. An exception of any other type raised there,
  and any exception raised by the tool lookup, is not caught: it leaves
  \<open>_execute_sequential\<close>; an exception that leaves the execution of a step leaves
  \<open>execute_plan\<close>, and an exception that leaves \<open>execute_plan\<close> leaves the loop of the
  orchestrator.
\<close>

theorem execute_sequential_exceptions:
  "(\<forall>tool msg. get_tool ex (tool_id step) = Inr tool
        \<and> tool (parameters step) context = Inl (ToolExecutionError msg)
      \<longrightarrow> execute_sequential ex step context =
            Inr \<lparr>sr_step = step, sr_status = ''FAILED'', sr_output = None,
                 sr_duration = None, sr_error = Some msg, sr_failure = True\<rparr>)
   \<and> (\<forall>tool cls msg. get_tool ex (tool_id step) = Inr tool
        \<and> tool (parameters step) context = Inl (OtherException cls msg)
      \<longrightarrow> execute_sequential ex step context = Inl (OtherException cls msg))
   \<and> (\<forall>e. get_tool ex (tool_id step) = Inl e
      \<longrightarrow> execute_sequential ex step context = Inl e)
   \<and> (\<forall>e pre post r_pre st_pre. steps pl = pre @ step # post
        \<and> execute_steps ex pre [] st = Inr (r_pre, st_pre) \<and> er_status r_pre = ''SUCCESS''
        \<and> execute_step ex step (ctx st_pre) = Inl e
      \<longrightarrow> execute_plan ex pl st = Inl e)
   \<and> (\<forall>e. execute_plan (executor env)
             (create_plan env t (gather_context env (ctx st0)) iteration) st0 = Inl e
      \<longrightarrow> agent_loop env t (Suc n) iteration st0 = Inl e)"
proof -
  have caught: "\<forall>tool msg. get_tool ex (tool_id step) = Inr tool
        \<and> tool (parameters step) context = Inl (ToolExecutionError msg)
      \<longrightarrow> execute_sequential ex step context =
            Inr \<lparr>sr_step = step, sr_status = ''FAILED'', sr_output = None,
                 sr_duration = None, sr_error = Some msg, sr_failure = True\<rparr>"
    by (simp add: execute_sequential_def)
  have other: "\<forall>tool cls msg. get_tool ex (tool_id step) = Inr tool
        \<and> tool (parameters step) context = Inl (OtherException cls msg)
      \<longrightarrow> execute_sequential ex step context = Inl (OtherException cls msg)"
    by (simp add: execute_sequential_def)
  have lookup: "\<forall>e. get_tool ex (tool_id step) = Inl e
      \<longrightarrow> execute_sequential ex step context = Inl e"
    by (simp add: execute_sequential_def)
  have plan_level: "\<forall>e pre post r_pre st_pre. steps pl = pre @ step # post
        \<and> execute_steps ex pre [] st = Inr (r_pre, st_pre) \<and> er_status r_pre = ''SUCCESS''
        \<and> execute_step ex step (ctx st_pre) = Inl e
      \<longrightarrow> execute_plan ex pl st = Inl e"
  proof (intro allI impI, elim conjE)
    fix e pre post r_pre st_pre
    assume plan_steps: "steps pl = pre @ step # post"
      and before: "execute_steps ex pre [] st = Inr (r_pre, st_pre)"
      and before_ok: "er_status r_pre = ''SUCCESS''"
      and raised: "execute_step ex step (ctx st_pre) = Inl e"
    have "execute_plan ex pl st = execute_steps ex (step # post) (er_steps r_pre) st_pre"
      unfolding execute_plan_def plan_steps
      by (rule execute_steps_append [OF before before_ok])
    then show "execute_plan ex pl st = Inl e"
      using raised by simp
  qed
  have loop_level: "\<forall>e. execute_plan (executor env)
             (create_plan env t (gather_context env (ctx st0)) iteration) st0 = Inl e
      \<longrightarrow> agent_loop env t (Suc n) iteration st0 = Inl e"
    by (simp add: run_iteration_def Let_def)
  from caught other lookup plan_level loop_level show ?thesis by blast
qed

theorem execute_sequential_exceptions_witness:
  "execute_sequential demo_executor (demo_step ''submit'' True) []
     = Inr \<lparr>sr_step = demo_step ''submit'' True, sr_status = ''FAILED'', sr_output = None,
            sr_duration = None, sr_error = Some ''rejected'', sr_failure = True\<rparr>
   \<and> execute_sequential demo_executor (demo_step ''fetch'' True) []
     = Inl (OtherException ''KeyError'' ''patient_id'')
   \<and> execute_sequential demo_executor (demo_step ''unknown'' True) []
     = Inl (OtherException ''ToolNotFoundError'' ''unknown'')
   \<and> execute_plan demo_executor
       (demo_plan [demo_step ''lookup'' False, demo_step ''fetch'' True])
       \<lparr>ctx = [], executed = []\<rparr>
     = Inl (OtherException ''KeyError'' ''patient_id'')
   \<and> agent_loop (demo_env (demo_plan [demo_step ''lookup'' False, demo_step ''fetch'' True]))
       demo_task (Suc 9) 0 \<lparr>ctx = [], executed = []\<rparr>
     = Inl (OtherException ''KeyError'' ''patient_id'')"
proof -
  let ?submit = "demo_step ''submit'' True"
  let ?fetch = "demo_step ''fetch'' True"
  let ?unknown = "demo_step ''unknown'' True"
  let ?pl = "demo_plan [demo_step ''lookup'' False, ?fetch]"
  let ?st = "\<lparr>ctx = ([] :: string list), executed = []\<rparr>"
  let ?env = "demo_env ?pl"
  have a: "execute_sequential demo_executor ?submit []
     = Inr \<lparr>sr_step = ?submit, sr_status = ''FAILED'', sr_output = None,
            sr_duration = None, sr_error = Some ''rejected'', sr_failure = True\<rparr>"
    using execute_sequential_exceptions
            [of demo_executor ?submit "[]" ?pl ?st ?env demo_task ?st 0 9,
             THEN conjunct1, rule_format,
             of "\<lambda>params context. Inl (ToolExecutionError ''rejected'')" "''rejected''"]
    by (simp add: demo_defs)
  have b: "execute_sequential demo_executor ?fetch []
     = Inl (OtherException ''KeyError'' ''patient_id'')"
    using execute_sequential_exceptions
            [of demo_executor ?fetch "[]" ?pl ?st ?env demo_task ?st 0 9,
             THEN conjunct2, THEN conjunct1, rule_format,
             of "\<lambda>params context. Inl (OtherException ''KeyError'' ''patient_id'')"
                "''KeyError''" "''patient_id''"]
    by (simp add: demo_defs)
  have c: "execute_sequential demo_executor ?unknown []
     = Inl (OtherException ''ToolNotFoundError'' ''unknown'')"
    using execute_sequential_exceptions
            [of demo_executor ?unknown "[]" ?pl ?st ?env demo_task ?st 0 9,
             THEN conjunct2, THEN conjunct2, THEN conjunct1, rule_format,
             of "OtherException ''ToolNotFoundError'' ''unknown''"]
    by (simp add: demo_defs)
  have d: "execute_plan demo_executor ?pl ?st = Inl (OtherException ''KeyError'' ''patient_id'')"
    using execute_sequential_exceptions
            [of demo_executor ?fetch "[]" ?pl ?st ?env demo_task ?st 0 9,
             THEN conjunct2, THEN conjunct2, THEN conjunct2, THEN conjunct1, rule_format,
             of "[demo_step ''lookup'' False]" "[]"
                "\<lparr>er_steps =
                   [\<lparr>sr_step = demo_step ''lookup'' False, sr_status = ''SUCCESS'',
                     sr_output = Some \<lparr>tr_status = ''SUCCESS'', tr_data = ''{}'',
                                        tr_error = None, tr_tool_id = Some ''lookup'',
                                        tr_duration = 1\<rparr>,
                     sr_duration = Some 1, sr_error = None, sr_failure = False\<rparr>],
                  er_status = ''SUCCESS'', er_failure_reason = None,
                  er_output = Some ''SUCCESS''\<rparr>"
                "\<lparr>ctx = [''SUCCESS''], executed = [demo_step ''lookup'' False]\<rparr>"
                "OtherException ''KeyError'' ''patient_id''"]
    by (simp add: demo_defs execute_step_def execute_sequential_def)
  have e: "agent_loop ?env demo_task (Suc 9) 0 ?st
     = Inl (OtherException ''KeyError'' ''patient_id'')"
    using d execute_sequential_exceptions
            [of demo_executor ?fetch "[]" ?pl ?st ?env demo_task ?st 0 9,
             THEN conjunct2, THEN conjunct2, THEN conjunct2, THEN conjunct2, rule_format,
             of "OtherException ''KeyError'' ''patient_id''"]
    by (simp add: demo_env_def create_plan_def)
  from a b c d e show ?thesis by blast
qed


section \<open>Properties of the orchestrator loop\<close>

text \<open>
  None of the three \<open>return\<close> statements of \<open>execute_task\<close> passes the arguments the
  \<open>AgentResponse\<close> class requires: each raises \<open>TypeError\<close> where it should return.
\<close>

lemma return_complete_raises:
  "return_response (complete_kwargs execution_result verification trace) st =
     Inl (OtherException ''TypeError''
       ''missing required arguments: task_id, status, recommendations, requires_approval, hitl_tier'')"
  by (simp add: response_defs)

lemma return_escalated_raises:
  "return_response (escalated_kwargs reason trace) st =
     Inl (OtherException ''TypeError'' ''unexpected keyword argument: reason'')"
  by (simp add: response_defs)

lemma return_max_iterations_raises:
  "return_response (max_iterations_kwargs trace) st =
     Inl (OtherException ''TypeError''
       ''missing required arguments: task_id, result, verification, recommendations, requires_approval, hitl_tier'')"
  by (simp add: response_defs)

text \<open>So the loop never returns a response, however many iterations it runs.\<close>

lemma agent_loop_raises:
  "\<exists>e. agent_loop env t n iteration st = Inl e"
proof (induction n arbitrary: iteration st)
  case 0
  then show ?case by (simp add: return_max_iterations_raises)
next
  case (Suc n)
  show ?case
  proof (cases "run_iteration env t iteration st")
    case (Inl e)
    then show ?thesis by simp
  next
    case (Inr r)
    obtain execution_result verification st' where r: "r = (execution_result, verification, st')"
      by (cases r) auto
    show ?thesis
      using Inr r Suc.IH [of "Suc iteration"
          "st'\<lparr>ctx := update_from_verification env verification (ctx st')\<rparr>"]
      by (simp add: return_complete_raises return_escalated_raises)
  qed
qed

text \<open>
  An iteration whose verification result is complete ends the loop in that iteration,
  with the \<open>TypeError\<close> of the first \<open>return\<close>; no later iteration runs and no further
  step is executed.
\<close>

lemma agent_loop_complete:
  "run_iteration env t iteration st = Inr (execution_result, verification, st') \<Longrightarrow>
   complete verification \<Longrightarrow>
   agent_loop env t (Suc n) iteration st =
     Inl (OtherException ''TypeError''
       ''missing required arguments: task_id, status, recommendations, requires_approval, hitl_tier'')"
  by (simp add: return_complete_raises)

text \<open>
  C6, on the code: a task whose plan is the single step \<open>lookup\<close>. The first iteration
  executes the step and its verification is complete. The call
  \<open>AgentResponse(result=..., verification=..., trace=...)\<close> that follows passes neither a
  status nor the other required fields and raises \<open>TypeError\<close>, which leaves
  \<open>execute_task\<close>: no response with status \<open>SUCCESS\<close> is returned.
\<close>

theorem execute_task_complete_status:
  "(case run_iteration (demo_env (demo_plan [demo_step ''lookup'' False])) demo_task 0
           (initial_state (demo_env (demo_plan [demo_step ''lookup'' False])) demo_task) of
      Inl e \<Rightarrow> None
    | Inr (execution_result, verification, st) \<Rightarrow>
        Some (complete verification, executed st))
     = Some (True, [demo_step ''lookup'' False])
   \<and> execute_task (demo_env (demo_plan [demo_step ''lookup'' False])) demo_task
     = Inl (OtherException ''TypeError''
         ''missing required arguments: task_id, status, recommendations, requires_approval, hitl_tier'')"
  by (simp add: demo_defs loop_defs response_defs eval_nat_numeral)

text \<open>
  The loop run to exhaustion: when each of the next \<open>n\<close> iterations continues, the loop
  reaches the \<open>return\<close> after it, which raises.
\<close>

lemma agent_loop_exhausted:
  "iterations_continue env t n iteration st \<Longrightarrow>
   agent_loop env t n iteration st =
     Inl (OtherException ''TypeError''
       ''missing required arguments: task_id, result, verification, recommendations, requires_approval, hitl_tier'')"
proof (induction n arbitrary: iteration st)
  case 0
  then show ?case by (simp add: return_max_iterations_raises)
next
  case (Suc n)
  then show ?case
    by (auto split: sum.splits prod.splits)
qed

text \<open>
  C9, on the code: a task whose plan is the single step \<open>submit\<close>, not critical, which
  fails at every iteration. Each of the ten iterations ends with a verification result
  that is neither complete nor asks for escalation. The call
  \<open>AgentResponse(status="MAX_ITERATIONS", trace=...)\<close> after the loop passes two of the eight
  required fields and raises \<open>TypeError\<close>, which leaves \<open>execute_task\<close>: no response with
  status \<open>MAX_ITERATIONS\<close> is returned.
\<close>

theorem execute_task_max_iterations:
  "iterations_continue (demo_env (demo_plan [demo_step ''submit'' False])) demo_task
     max_iterations 0
     (initial_state (demo_env (demo_plan [demo_step ''submit'' False])) demo_task)
   \<and> execute_task (demo_env (demo_plan [demo_step ''submit'' False])) demo_task
     = Inl (OtherException ''TypeError''
         ''missing required arguments: task_id, result, verification, recommendations, requires_approval, hitl_tier'')"
proof -
  let ?env = "demo_env (demo_plan [demo_step ''submit'' False])"
  have continue: "iterations_continue ?env demo_task max_iterations 0
                    (initial_state ?env demo_task)"
    by (simp add: demo_defs loop_defs eval_nat_numeral)
  from agent_loop_exhausted [OF continue] continue
  show ?thesis by (simp add: execute_task_def)
qed

section \<open>Properties of the context budget manager\<close>

text \<open>
  What the check does establish: it never changes the usage, and a request it approves
  keeps the usage, once allocated, within 80 percent of the total budget.
\<close>

lemma check_budget_approved:
  "bc_status (check_budget m category requested) = ''APPROVED'' \<Longrightarrow>
   10 * used (allocate m category requested) \<le> 8 * total_budget m"
  by (auto simp: check_budget_def allocate_def Let_def split: if_splits)

text \<open>
  C4, on the code: a new manager, and seven times a \<open>check_budget\<close> for 40000 tokens of
  the category \<open>dynamic\<close>, each but the last followed by the allocation of what was
  asked for. No check answers \<open>OVER_ALLOCATION\<close>: the first four are approved, the
  others only warn, and no allocation is rejected. After the sixth allocation the
  usage is 240000, above the total budget of 200000, and the check that follows leaves
  it there.
\<close>

theorem check_budget_ceiling_exceeded:
  "(case run_budget_calls new_budget_manager
           [CheckBudget ''dynamic'' 40000, Allocate ''dynamic'' 40000,
            CheckBudget ''dynamic'' 40000, Allocate ''dynamic'' 40000,
            CheckBudget ''dynamic'' 40000, Allocate ''dynamic'' 40000,
            CheckBudget ''dynamic'' 40000, Allocate ''dynamic'' 40000,
            CheckBudget ''dynamic'' 40000, Allocate ''dynamic'' 40000,
            CheckBudget ''dynamic'' 40000, Allocate ''dynamic'' 40000,
            CheckBudget ''dynamic'' 40000]
    of (m, results) \<Rightarrow>
         (used m, total_budget m, used m \<le> total_budget m, map bc_status results))
   = (240000, 200000, False,
      [''APPROVED'', ''APPROVED'', ''APPROVED'', ''APPROVED'',
       ''WARNING'', ''WARNING'', ''WARNING''])"
  by (simp add: new_budget_manager_def check_budget_def allocate_def)

section \<open>Properties of the compaction service\<close>

text \<open>
  What the service does establish: a compact memory is returned only when the loss
  verification has passed on it, and its critical data is what the extraction has
  designated; when the verification fails, \<open>CompactionError\<close> is raised with the missing
  items and nothing is returned.
\<close>

lemma compact_working_memory_returns:
  "compact_working_memory ce wm target_tokens = Inr r \<Longrightarrow>
   critical_data (cr_compact_memory r) = extract_critical_data ce wm
   \<and> lv_passed (verify_no_data_loss ce wm (cr_compact_memory r))
   \<and> compressed_size (cr_compact_memory r) \<noteq> 0"
  by (auto simp: compact_working_memory_def Let_def split: if_splits)

lemma compact_working_memory_loss:
  "\<not> lv_passed (verify_no_data_loss ce wm
        \<lparr>critical_data = extract_critical_data ce wm,
         conversation_summary = summarize_conversation ce (conversation_history wm) 10,
         tool_summary = compress_tool_results ce (tool_results wm),
         original_size = memory_count_tokens ce wm,
         compressed_size = count_tokens ce (extract_critical_data ce wm)
            (summarize_conversation ce (conversation_history wm) 10)
            (compress_tool_results ce (tool_results wm))\<rparr>) \<Longrightarrow>
   \<exists>missing. compact_working_memory ce wm target_tokens = Inl (CompactionError missing)"
  by (simp add: compact_working_memory_def Let_def)

text \<open>
  C8, on the code: the compaction of an empty working memory. Nothing is critical,
  the loss verification passes, and the compacted parts count zero tokens; the
  compression ratio divides by zero, so the call raises \<open>ZeroDivisionError\<close>: it neither
  returns a compact memory nor raises \<open>CompactionError\<close>.
\<close>

theorem compact_working_memory_zero_division:
  "compact_working_memory demo_compaction empty_working_memory 10000 = Inl ZeroDivisionError
   \<and> lv_passed (verify_no_data_loss demo_compaction empty_working_memory
        \<lparr>critical_data = [], conversation_summary = [], tool_summary = [],
         original_size = 0, compressed_size = 0\<rparr>)"
  by (simp add: compact_working_memory_def demo_compaction_def empty_working_memory_def)


section \<open>Properties of the tool executor\<close>

text \<open>The body of the \<open>try\<close> only appends events, and starts with the call of the tool.\<close>

lemma call_and_verify_events:
  "\<exists>evs. events (snd (call_and_verify te tool_spec validated_params creds st))
           = events st @ ToolCall (mcp_endpoint tool_spec) # evs"
  by (auto simp: call_and_verify_def record_event_def Let_def
           split: sum.splits tool_exn.splits)

text \<open>
  C10: for every call of \<open>execute\<close>, in whatever state the cache is: a caller who is
  not authorized receives \<open>UnauthorizedError\<close>, and an authorized caller who does not
  give the consent the tool requires receives \<open>ConsentDeniedError\<close>; in both cases the
  result cache is what it was, and the call has read no cache entry, called no tool
  and written no cache entry: its only effects are the security checks. Conversely, a
  call that reads the cache, calls the tool or writes the cache was authorized and, when
  the tool requires consent, had the consent.
\<close>

theorem execute_security_checks_first:
  "(\<not> authorized (check_authorization te user tool_spec) \<longrightarrow>
      fst (execute te tool_spec params user st)
        = Inl (UnauthorizedError (auth_reason (check_authorization te user tool_spec)))
      \<and> result_cache (snd (execute te tool_spec params user st)) = result_cache st
      \<and> events (snd (execute te tool_spec params user st))
          = events st @ [AuthorizationCheck])
   \<and> (authorized (check_authorization te user tool_spec) \<and> requires_consent tool_spec
        \<and> \<not> granted (get_consent te user tool_spec params) \<longrightarrow>
      fst (execute te tool_spec params user st) = Inl ConsentDeniedError
      \<and> result_cache (snd (execute te tool_spec params user st)) = result_cache st
      \<and> events (snd (execute te tool_spec params user st))
          = events st @ [AuthorizationCheck, ConsentCheck])
   \<and> (list_ex cache_or_tool_event
         (drop (length (events st)) (events (snd (execute te tool_spec params user st)))) \<longrightarrow>
      authorized (check_authorization te user tool_spec)
      \<and> (requires_consent tool_spec \<longrightarrow> granted (get_consent te user tool_spec params)))"
proof -
  let ?r = "execute te tool_spec params user st"
  have unauthorized: "\<not> authorized (check_authorization te user tool_spec) \<longrightarrow>
      fst ?r = Inl (UnauthorizedError (auth_reason (check_authorization te user tool_spec)))
      \<and> result_cache (snd ?r) = result_cache st
      \<and> events (snd ?r) = events st @ [AuthorizationCheck]"
    by (simp add: execute_def record_event_def Let_def)
  have denied: "authorized (check_authorization te user tool_spec) \<and> requires_consent tool_spec
        \<and> \<not> granted (get_consent te user tool_spec params) \<longrightarrow>
      fst ?r = Inl ConsentDeniedError
      \<and> result_cache (snd ?r) = result_cache st
      \<and> events (snd ?r) = events st @ [AuthorizationCheck, ConsentCheck]"
    by (simp add: execute_def record_event_def Let_def)
  have converse: "list_ex cache_or_tool_event (drop (length (events st)) (events (snd ?r))) \<longrightarrow>
      authorized (check_authorization te user tool_spec)
      \<and> (requires_consent tool_spec \<longrightarrow> granted (get_consent te user tool_spec params))"
  proof (intro impI)
    assume touched: "list_ex cache_or_tool_event (drop (length (events st)) (events (snd ?r)))"
    show "authorized (check_authorization te user tool_spec)
      \<and> (requires_consent tool_spec \<longrightarrow> granted (get_consent te user tool_spec params))"
    proof (rule ccontr)
      assume "\<not> (authorized (check_authorization te user tool_spec)
        \<and> (requires_consent tool_spec \<longrightarrow> granted (get_consent te user tool_spec params)))"
      then consider "\<not> authorized (check_authorization te user tool_spec)"
        | "authorized (check_authorization te user tool_spec) \<and> requires_consent tool_spec
            \<and> \<not> granted (get_consent te user tool_spec params)"
        by blast
      then show False
      proof cases
        case 1
        with unauthorized have "events (snd ?r) = events st @ [AuthorizationCheck]" by blast
        with touched show False by simp
      next
        case 2
        with denied have "events (snd ?r) = events st @ [AuthorizationCheck, ConsentCheck]"
          by blast
        with touched show False by simp
      qed
    qed
  qed
  from unauthorized denied converse show ?thesis by blast
qed

theorem execute_security_checks_first_witness:
  "result_cache demo_cached_state ''fetch_patient_data:p1'' = Some demo_cached_result
   \<and> execute demo_tool_executor demo_tool_spec ''p1'' ''mallory'' demo_cached_state
       = (Inl (UnauthorizedError ''role not allowed''),
          demo_cached_state\<lparr>events := [AuthorizationCheck]\<rparr>)
   \<and> execute demo_tool_executor demo_tool_spec ''p1'' ''bob'' demo_cached_state
       = (Inl ConsentDeniedError,
          demo_cached_state\<lparr>events := [AuthorizationCheck, ConsentCheck]\<rparr>)
   \<and> execute demo_tool_executor demo_tool_spec ''p1'' ''alice'' demo_cached_state
       = (Inr demo_cached_result,
          demo_cached_state\<lparr>events := [AuthorizationCheck, ConsentCheck,
                                         CacheRead ''fetch_patient_data:p1'']\<rparr>)
   \<and> authorized (check_authorization demo_tool_executor ''alice'' demo_tool_spec)
   \<and> granted (get_consent demo_tool_executor ''alice'' demo_tool_spec ''p1'')"
proof -
  have cached: "result_cache demo_cached_state ''fetch_patient_data:p1'' = Some demo_cached_result"
    by (simp add: demo_cached_state_def)
  have mallory: "execute demo_tool_executor demo_tool_spec ''p1'' ''mallory'' demo_cached_state
       = (Inl (UnauthorizedError ''role not allowed''),
          demo_cached_state\<lparr>events := [AuthorizationCheck]\<rparr>)"
    using execute_security_checks_first
            [of demo_tool_executor "''mallory''" demo_tool_spec "''p1''" demo_cached_state,
             THEN conjunct1]
    by (simp add: demo_tool_executor_def demo_cached_state_def prod_eq_iff)
  have bob: "execute demo_tool_executor demo_tool_spec ''p1'' ''bob'' demo_cached_state
       = (Inl ConsentDeniedError,
          demo_cached_state\<lparr>events := [AuthorizationCheck, ConsentCheck]\<rparr>)"
    using execute_security_checks_first
            [of demo_tool_executor "''bob''" demo_tool_spec "''p1''" demo_cached_state,
             THEN conjunct2, THEN conjunct1]
    by (simp add: demo_tool_executor_def demo_tool_spec_def demo_cached_state_def prod_eq_iff)
  have alice: "execute demo_tool_executor demo_tool_spec ''p1'' ''alice'' demo_cached_state
       = (Inr demo_cached_result,
          demo_cached_state\<lparr>events := [AuthorizationCheck, ConsentCheck,
                                         CacheRead ''fetch_patient_data:p1'']\<rparr>)"
    by (simp add: execute_def record_event_def demo_tool_executor_def demo_tool_spec_def
                  demo_cached_state_def Let_def)
  have ok: "authorized (check_authorization demo_tool_executor ''alice'' demo_tool_spec)
      \<and> granted (get_consent demo_tool_executor ''alice'' demo_tool_spec ''p1'')"
    using alice execute_security_checks_first
            [of demo_tool_executor "''alice''" demo_tool_spec "''p1''" demo_cached_state,
             THEN conjunct2, THEN conjunct2]
    by (simp add: demo_tool_spec_def demo_cached_state_def)
  from cached mallory bob alice ok show ?thesis by blast
qed


end
